theory Spec2Isabelle
  imports Complex_Main "HOL-Library.Multiset"
begin

section \<open>Data model\<close>

text \<open>
  The interface \<open>ColorEntry\<close> of \<open>App.tsx\<close>: a colour specification and an optional
  label. An absent label (\<open>undefined\<close>) is \<open>None\<close>; the empty string is \<open>Some []\<close>.
  A JavaScript string is modelled as a list of code units; the model covers the code
  units below 256, which contain every character the functions below inspect.
\<close>

record ColorEntry =
  color :: string
  label :: "string option"

text \<open>
  A run-time array of entries. Reading an index that holds no entry (past the end, or a
  hole left by a write past the end) yields \<open>undefined\<close> in JavaScript; such a slot
  is \<open>None\<close>.
\<close>

type_synonym axis = "ColorEntry option list"

section \<open>String primitives of the host language\<close>

text \<open>\<open>s.indexOf(c)\<close>: the first index of \<open>c\<close>, or \<open>-1\<close>.\<close>

definition indexOf :: "char \<Rightarrow> string \<Rightarrow> int" where
  "indexOf c s = (if c \<in> set s then int (length (takeWhile (\<lambda>x. x \<noteq> c) s)) else - 1)"

text \<open>\<open>s.substring(a, b)\<close> and \<open>s.substring(a)\<close> for \<open>0 \<le> a \<le> b\<close>.\<close>

definition substring :: "string \<Rightarrow> int \<Rightarrow> int \<Rightarrow> string" where
  "substring s a b = take (nat b - nat a) (drop (nat a) s)"

definition substring_from :: "string \<Rightarrow> int \<Rightarrow> string" where
  "substring_from s a = drop (nat a) s"

text \<open>The regular expression \<open>/^[0-9A-Fa-f]{6}$/\<close>.\<close>

definition isHexDigit :: "char \<Rightarrow> bool" where
  "isHexDigit c = (c \<in> set ''0123456789ABCDEFabcdef'')"

definition isHex6 :: "string \<Rightarrow> bool" where
  "isHex6 s = (length s = 6 \<and> list_all isHexDigit s)"

text \<open>
  \<open>s.split(',')\<close>: the pieces between the separators; never empty, the empty string
  gives one empty piece.
\<close>

fun split_at :: "char \<Rightarrow> string \<Rightarrow> string list" where
  "split_at c [] = [[]]"
| "split_at c (x # xs) =
     (if x = c then [] # split_at c xs
      else (let r = split_at c xs in (x # hd r) # tl r))"

text \<open>\<open>parts.join(',')\<close>.\<close>

fun join_with :: "char \<Rightarrow> string list \<Rightarrow> string" where
  "join_with c [] = []"
| "join_with c [p] = p"
| "join_with c (p # q # ps) = p @ c # join_with c (q # ps)"

text \<open>
  \<open>s.trim()\<close> removes white space and line terminators from both ends; below 256 these
  are the code units 9 to 13, 32 and 160.
\<close>

definition isWhiteSpace :: "char \<Rightarrow> bool" where
  "isWhiteSpace c = (c \<in> {CHR 0x09, CHR 0x0A, CHR 0x0B, CHR 0x0C, CHR 0x0D, CHR 0x20, CHR 0xA0})"

definition trim :: "string \<Rightarrow> string" where
  "trim s = rev (dropWhile isWhiteSpace (rev (dropWhile isWhiteSpace s)))"

section \<open>Entry parsing and formatting\<close>

subsection \<open>The variant of \<open>src/App.tsx\<close>: split at commas, trim\<close>

definition parseColorInput :: "string \<Rightarrow> ColorEntry" where
  "parseColorInput input =
     (let parts = split_at CHR '','' input;
          colorPart = hd parts;
          labelParts = tl parts;
          trimmedColor = trim colorPart;
          color = (if isHex6 trimmedColor then CHR ''#'' # trimmedColor else trimmedColor);
          label = (if length labelParts > 0 then Some (trim (join_with CHR '','' labelParts))
                   else None)
      in \<lparr>color = color, label = label\<rparr>)"

text \<open>A label is used when it is truthy: present and not the empty string.\<close>

definition truthy :: "string option \<Rightarrow> bool" where
  "truthy l = (case l of None \<Rightarrow> False | Some s \<Rightarrow> s \<noteq> [])"

definition formatColorValue :: "ColorEntry \<Rightarrow> string" where
  "formatColorValue entry =
     (if truthy (label entry) then color entry @ '', '' @ the (label entry) else color entry)"

subsection \<open>The variant of \<open>src/unnamed/part_001\<close>: exact preservation\<close>

definition colorEndIndex :: "string \<Rightarrow> int" where
  "colorEndIndex input =
     (let firstCommaIndex = indexOf CHR '','' input;
          firstSpaceIndex = indexOf CHR '' '' input
      in if firstCommaIndex \<noteq> - 1 \<and> firstSpaceIndex \<noteq> - 1
           then min firstCommaIndex firstSpaceIndex
         else if firstCommaIndex \<noteq> - 1 then firstCommaIndex
         else if firstSpaceIndex \<noteq> - 1 then firstSpaceIndex
         else - 1)"

definition parseColorInput_exact :: "string \<Rightarrow> ColorEntry" where
  "parseColorInput_exact input =
     (if colorEndIndex input = - 1 then \<lparr>color = input, label = None\<rparr>
      else
        (let colorPart = substring input 0 (colorEndIndex input);
             labelPart = substring_from input (colorEndIndex input);
             color = (if isHex6 colorPart then CHR ''#'' # colorPart else colorPart)
         in \<lparr>color = color, label = (if labelPart = [] then None else Some labelPart)\<rparr>))"

definition formatColorValue_exact :: "ColorEntry \<Rightarrow> string" where
  "formatColorValue_exact entry =
     (if \<not> truthy (label entry) then color entry
      else color entry @ the (label entry))"

text \<open>
  The test that decides whether \<open>parseColorInput_exact\<close> stores the colour token with
  an added \<open>#\<close>: a delimiter was found and the token before it is six hex digits.
\<close>

definition needsHashPrefix :: "string \<Rightarrow> bool" where
  "needsHashPrefix input =
     (colorEndIndex input \<noteq> - 1 \<and> isHex6 (substring input 0 (colorEndIndex input)))"

text \<open>The colour both variants store for a token: six bare hex digits get a \<open>#\<close>.\<close>

definition hashPrefix :: "string \<Rightarrow> string" where
  "hashPrefix t = (if isHex6 t then CHR ''#'' # t else t)"

section \<open>Grid state\<close>

datatype axisType = foreground | background

datatype dragType = column | row

record AppState =
  foregroundColors :: axis
  backgroundColors :: axis
  activeColorPicker :: "(axisType \<times> nat) option"
  draggedIndex :: "nat option"
  draggedRowIndex :: "nat option"

subsection \<open>Array primitives of the host language\<close>

text \<open>\<open>arr[i]\<close>: \<open>undefined\<close> past the end.\<close>

definition array_get :: "'a option list \<Rightarrow> nat \<Rightarrow> 'a option" where
  "array_get arr i = (if i < length arr then arr ! i else None)"


text \<open>\<open>arr.splice(i, 1)\<close> and \<open>arr.splice(i, 0, v)\<close>.\<close>

definition splice_remove :: "nat \<Rightarrow> 'a list \<Rightarrow> 'a list" where
  "splice_remove i arr = take i arr @ drop (Suc i) arr"

definition splice_insert :: "nat \<Rightarrow> 'a \<Rightarrow> 'a list \<Rightarrow> 'a list" where
  "splice_insert i v arr = take i arr @ v # drop i arr"


subsection \<open>\<open>handleColorChange\<close>\<close>



subsection \<open>\<open>handleDragOver\<close>\<close>

text \<open>
  The four statements both branches of \<open>handleDragOver\<close> run on a copy of their array:
  read the dragged entry, remove it, insert it at the index under the pointer.
\<close>

definition moveEntry :: "nat \<Rightarrow> nat \<Rightarrow> 'a option list \<Rightarrow> 'a option list" where
  "moveEntry dragged index arr =
     (let draggedColor = array_get arr dragged;
          newColors = splice_remove dragged arr
      in splice_insert index draggedColor newColors)"

definition handleDragOver :: "nat \<Rightarrow> dragType \<Rightarrow> AppState \<Rightarrow> AppState" where
  "handleDragOver index type st =
     (if type = column then
        (case draggedIndex st of
           None \<Rightarrow> st
         | Some d \<Rightarrow>
             if d = index then st
             else st\<lparr>foregroundColors := moveEntry d index (foregroundColors st),
                     draggedIndex := Some index\<rparr>)
      else
        (case draggedRowIndex st of
           None \<Rightarrow> st
         | Some d \<Rightarrow>
             if d = index then st
             else st\<lparr>backgroundColors := moveEntry d index (backgroundColors st),
                     draggedRowIndex := Some index\<rparr>))"



definition dragAxis :: "dragType \<Rightarrow> AppState \<Rightarrow> axis" where
  "dragAxis type st = (if type = column then foregroundColors st else backgroundColors st)"

definition otherDragAxis :: "dragType \<Rightarrow> AppState \<Rightarrow> axis" where
  "otherDragAxis type st = (if type = column then backgroundColors st else foregroundColors st)"

definition draggedOf :: "dragType \<Rightarrow> AppState \<Rightarrow> nat option" where
  "draggedOf type st = (if type = column then draggedIndex st else draggedRowIndex st)"

subsection \<open>The picker: opening it, and what a render reads\<close>



subsection \<open>\<open>handleForegroundChange\<close>\<close>


subsection \<open>Initial state\<close>

definition default_foregroundColors :: axis where
  "default_foregroundColors =
     [Some \<lparr>color = ''#FFFFFF'', label = Some ''White''\<rparr>,
      Some \<lparr>color = ''#000000'', label = Some ''Black''\<rparr>,
      Some \<lparr>color = ''#FF0000'', label = Some ''Red''\<rparr>]"

definition default_backgroundColors :: axis where
  "default_backgroundColors =
     [Some \<lparr>color = ''#000000'', label = Some ''Black''\<rparr>,
      Some \<lparr>color = ''#FFFFFF'', label = Some ''White''\<rparr>,
      Some \<lparr>color = ''#0000FF'', label = Some ''Blue''\<rparr>]"

text \<open>The defaults of \<open>src/unnamed/part_001\<close>: the labels start with a space.\<close>

definition default_foregroundColors_exact :: axis where
  "default_foregroundColors_exact =
     [Some \<lparr>color = ''#FFFFFF'', label = Some '' White''\<rparr>,
      Some \<lparr>color = ''#000000'', label = Some '' Black''\<rparr>,
      Some \<lparr>color = ''#FF0000'', label = Some '' Red''\<rparr>]"

definition default_backgroundColors_exact :: axis where
  "default_backgroundColors_exact =
     [Some \<lparr>color = ''#000000'', label = Some '' Black''\<rparr>,
      Some \<lparr>color = ''#FFFFFF'', label = Some '' White''\<rparr>,
      Some \<lparr>color = ''#0000FF'', label = Some '' Blue''\<rparr>]"

text \<open>
  What a state initialiser returns: the array written in the code, or the value found in
  storage, which the code hands on unchecked.
\<close>

datatype 'j initial = Hardcoded axis | FromStorage 'j

text \<open>
  The shape shared by the two initialisers. \<open>savedColors\<close> is the result of
  \<open>localStorage.getItem\<close> (\<open>None\<close> for \<open>null\<close>). \<open>JSON_parse\<close> is the host's
  \<open>JSON.parse\<close>, \<open>None\<close> when it throws. \<open>destructure\<close> reads the property
  (\<open>const { fg } = ...\<close>), \<open>None\<close> when that throws because the parsed value is
  \<open>null\<close>. Both are parameters. Every throw is caught and falls through to the default.
\<close>

definition initialColors ::
  "axis \<Rightarrow> (string \<Rightarrow> 'j option) \<Rightarrow> ('j \<Rightarrow> 'j option) \<Rightarrow> string option \<Rightarrow> 'j initial" where
  "initialColors dflt JSON_parse destructure savedColors =
     (case savedColors of
        None \<Rightarrow> Hardcoded dflt
      | Some s \<Rightarrow>
          if s = [] then Hardcoded dflt
          else (case JSON_parse s of
                  None \<Rightarrow> Hardcoded dflt
                | Some v \<Rightarrow>
                    (case destructure v of
                       None \<Rightarrow> Hardcoded dflt
                     | Some x \<Rightarrow> FromStorage x)))"

definition initial_foregroundColors ::
  "(string \<Rightarrow> 'j option) \<Rightarrow> ('j \<Rightarrow> 'j option) \<Rightarrow> string option \<Rightarrow> 'j initial" where
  "initial_foregroundColors = initialColors default_foregroundColors"

definition initial_backgroundColors ::
  "(string \<Rightarrow> 'j option) \<Rightarrow> ('j \<Rightarrow> 'j option) \<Rightarrow> string option \<Rightarrow> 'j initial" where
  "initial_backgroundColors = initialColors default_backgroundColors"

definition initial_foregroundColors_exact ::
  "(string \<Rightarrow> 'j option) \<Rightarrow> ('j \<Rightarrow> 'j option) \<Rightarrow> string option \<Rightarrow> 'j initial" where
  "initial_foregroundColors_exact = initialColors default_foregroundColors_exact"

definition initial_backgroundColors_exact ::
  "(string \<Rightarrow> 'j option) \<Rightarrow> ('j \<Rightarrow> 'j option) \<Rightarrow> string option \<Rightarrow> 'j initial" where
  "initial_backgroundColors_exact = initialColors default_backgroundColors_exact"

section \<open>Contrast\<close>

datatype ContrastLabel = AAA | AA | Fail

text \<open>
  \<open>getContrastLabel\<close>; the last branch returns the red cross. A ratio is a finite
  double, hence a real number, and the comparisons are exact.
\<close>

definition getContrastLabel :: "real \<Rightarrow> ContrastLabel" where
  "getContrastLabel ratio = (if ratio \<ge> 7 then AAA else if ratio \<ge> 45 / 10 then AA else Fail)"

text \<open>The red, green and blue channels a colour library reads from a specification.\<close>

type_synonym rgb = "real \<times> real \<times> real"

text \<open>
  The contrast function belongs to the colour library (chroma-js), an external dependency
  that is not under src/. Section 4.2 of the spec gives its formula: each channel is
  divided by 255 and linearised, the relative luminance is the weighted sum, and the ratio
  puts the lighter colour on top. The three definitions below follow that section, in the
  arithmetic of the real numbers, not of doubles.
\<close>

text \<open>
  Modelled from the spec: the linearisation of one channel by the library (section 4.2).
\<close>

definition luminance_x :: "real \<Rightarrow> real" where
  "luminance_x x =
     (let c = x / 255
      in if c \<le> 3928 / 100000 then c / (1292 / 100)
         else ((c + 55 / 1000) / (1055 / 1000)) powr (24 / 10))"

text \<open>
  Modelled from the spec: the relative luminance of the library, the weighted sum of the
  linearised channels (section 4.2).
\<close>

definition luminance :: "rgb \<Rightarrow> real" where
  "luminance c =
     (case c of (r, g, b) \<Rightarrow>
        2126 / 10000 * luminance_x r + 7152 / 10000 * luminance_x g
          + 722 / 10000 * luminance_x b)"

text \<open>
  Modelled from the spec: \<open>chroma.contrast\<close> of the library, the lighter luminance
  plus 0.05 over the darker plus 0.05 (section 4.2).
\<close>

definition contrast :: "rgb \<Rightarrow> rgb \<Rightarrow> real" where
  "contrast a b =
     (let l1 = luminance a; l2 = luminance b
      in if l1 > l2 then (l1 + 5 / 100) / (l2 + 5 / 100)
         else (l2 + 5 / 100) / (l1 + 5 / 100))"

text \<open>Every channel of a colour the library has read lies between 0 and 255.\<close>

definition inGamut :: "rgb \<Rightarrow> bool" where
  "inGamut c = (case c of (r, g, b) \<Rightarrow>
     0 \<le> r \<and> r \<le> 255 \<and> 0 \<le> g \<and> g \<le> 255 \<and> 0 \<le> b \<and> b \<le> 255)"

text \<open>
  \<open>isValidColor\<close>, \<open>getRatio\<close> and the ratio of a grid cell. The parameter
  \<open>chroma\<close> is the library's constructor: the colour it reads from a string, \<open>None\<close>
  when it throws. \<open>chroma.contrast\<close> constructs both colours first, so it throws exactly
  when one of them does, and the \<open>catch\<close> returns 0.
\<close>

definition isValidColor :: "(string \<Rightarrow> rgb option) \<Rightarrow> string \<Rightarrow> bool" where
  "isValidColor chroma c = (case chroma c of Some _ \<Rightarrow> True | None \<Rightarrow> False)"

definition getRatio :: "(string \<Rightarrow> rgb option) \<Rightarrow> string \<Rightarrow> string \<Rightarrow> real" where
  "getRatio chroma color1 color2 =
     (case chroma color1 of
        None \<Rightarrow> 0
      | Some a \<Rightarrow> (case chroma color2 of None \<Rightarrow> 0 | Some b \<Rightarrow> contrast a b))"

definition cellRatio :: "(string \<Rightarrow> rgb option) \<Rightarrow> ColorEntry \<Rightarrow> ColorEntry \<Rightarrow> real" where
  "cellRatio chroma fgColor bgColor =
     (if isValidColor chroma (color fgColor) \<and> isValidColor chroma (color bgColor)
      then getRatio chroma (color fgColor) (color bgColor)
      else 0)"

section \<open>Colour conversion\<close>

text \<open>
  The interface \<open>HSL\<close>: hue, saturation and lightness, in this order. The sliders and
  \<open>hexToHsl\<close> produce integers.
\<close>

type_synonym HSL = "int \<times> int \<times> int"

text \<open>\<open>Math.round\<close>: the nearest integer, a half going up.\<close>

definition Math_round :: "real \<Rightarrow> int" where
  "Math_round x = \<lfloor>x + 1 / 2\<rfloor>"

text \<open>
  The conversions between HSL, RGB channels and hex text belong to the colour library
  (chroma-js), an external dependency that is not under src/. The spec fixes the colour
  model and not its formulas: hue in degrees, saturation and lightness in percent,
  channels from 0 to 255, a six-digit hex text as the stored colour, and an undefined hue
  for achromatic colours. The definitions below are the usual conversions of that model,
  written the way the library computes them (\<open>hsl2rgb\<close>, \<open>clip_rgb\<close>,
  \<open>rgb2hex\<close>, \<open>hex2rgb\<close>, \<open>rgb2hsl\<close>), in the arithmetic of the real
  numbers. An undefined hue (\<open>NaN\<close>) is \<open>None\<close>.
\<close>

text \<open>
  Modelled from the spec: one channel of the library's \<open>hsl2rgb\<close>, from the two
  lightness bounds and the hue shifted by a third of the circle.
\<close>

definition hue_channel :: "real \<Rightarrow> real \<Rightarrow> real \<Rightarrow> real" where
  "hue_channel t1 t2 t3 =
     (let t = (if t3 < 0 then t3 + 1 else t3);
          t = (if t > 1 then t - 1 else t)
      in if 6 * t < 1 then t1 + (t2 - t1) * 6 * t
         else if 2 * t < 1 then t2
         else if 3 * t < 2 then t1 + (t2 - t1) * (2 / 3 - t) * 6
         else t1)"

text \<open>
  Modelled from the spec: the library's \<open>hsl2rgb\<close>; saturation 0 gives three equal
  channels.
\<close>

definition hsl2rgb :: "real \<Rightarrow> real \<Rightarrow> real \<Rightarrow> rgb" where
  "hsl2rgb h s l =
     (if s = 0 then (l * 255, l * 255, l * 255)
      else
        (let t2 = (if l < 1 / 2 then l * (1 + s) else l + s - l * s);
             t1 = 2 * l - t2;
             h' = h / 360
         in (hue_channel t1 t2 (h' + 1 / 3) * 255,
             hue_channel t1 t2 h' * 255,
             hue_channel t1 t2 (h' - 1 / 3) * 255)))"

text \<open>
  Modelled from the spec: the library's \<open>limit\<close> and \<open>clip_rgb\<close>; a colour object
  keeps every channel between 0 and 255.
\<close>

definition limit :: "real \<Rightarrow> real" where
  "limit x = min (max 0 x) 255"

text \<open>Modelled from the spec: the library's \<open>clip_rgb\<close>, \<open>limit\<close> on each channel.\<close>

definition clip_rgb :: "rgb \<Rightarrow> rgb" where
  "clip_rgb c = (case c of (r, g, b) \<Rightarrow> (limit r, limit g, limit b))"

text \<open>
  Modelled from the spec: the library's \<open>rgb2hex\<close>, the six-digit hex text of a colour:
  \<open>#\<close> and two lower-case digits for each rounded channel. First one digit.
\<close>

definition hexdigit :: "nat \<Rightarrow> char" where
  "hexdigit d = ''0123456789abcdef'' ! d"

text \<open>Modelled from the spec: the two hex digits of a channel below 256.\<close>

definition hex2 :: "nat \<Rightarrow> string" where
  "hex2 n = [hexdigit (n div 16), hexdigit (n mod 16)]"

text \<open>Modelled from the spec: the library's \<open>rgb2hex\<close>.\<close>

definition rgb2hex :: "rgb \<Rightarrow> string" where
  "rgb2hex c = (case c of (r, g, b) \<Rightarrow>
     CHR ''#'' # hex2 (nat (Math_round r)) @ hex2 (nat (Math_round g)) @ hex2 (nat (Math_round b)))"

text \<open>
  Modelled from the spec: the library's \<open>hex2rgb\<close> on a hex text of the form
  \<open>#rrggbb\<close>. The library's constructor reads more forms than this one; where a
  function takes the constructor as the parameter \<open>chroma\<close>, this reader is one
  instance of it. First the value of one digit, in either case.
\<close>

definition hexval :: "char \<Rightarrow> nat option" where
  "hexval c = map_of (zip ''0123456789abcdefABCDEF''
                 [0, 1, 2, 3, 4, 5, 6, 7, 8, 9, 10, 11, 12, 13, 14, 15, 10, 11, 12, 13, 14, 15]) c"

text \<open>Modelled from the spec: the value of two hex digits.\<close>

definition byteval :: "char \<Rightarrow> char \<Rightarrow> nat option" where
  "byteval a b = (case hexval a of None \<Rightarrow> None
                  | Some x \<Rightarrow> (case hexval b of None \<Rightarrow> None | Some y \<Rightarrow> Some (16 * x + y)))"

text \<open>Modelled from the spec: the library's \<open>hex2rgb\<close> for \<open>#rrggbb\<close>.\<close>

fun hex2rgb :: "string \<Rightarrow> rgb option" where
  "hex2rgb [h, a, b, c, d, e, f] =
     (if h = CHR ''#'' then
        (case (byteval a b, byteval c d, byteval e f) of
           (Some r, Some g, Some bl) \<Rightarrow> Some (real r, real g, real bl)
         | _ \<Rightarrow> None)
      else None)"
| "hex2rgb _ = None"

text \<open>
  Modelled from the spec: the library's \<open>rgb2hsl\<close>. Equal channels give saturation 0
  and an undefined hue; otherwise the hue is a multiple of 60 degrees from the largest
  channel, made non-negative.
\<close>

definition rgb2hsl :: "rgb \<Rightarrow> real option \<times> real \<times> real" where
  "rgb2hsl c = (case c of (r0, g0, b0) \<Rightarrow>
     (let r = r0 / 255; g = g0 / 255; b = b0 / 255;
          mn = min r (min g b);
          mx = max r (max g b);
          l = (mx + mn) / 2
      in if mx = mn then (None, 0, l)
         else
           (let s = (if l < 1 / 2 then (mx - mn) / (mx + mn) else (mx - mn) / (2 - mx - mn));
                h = (if r = mx then (g - b) / (mx - mn)
                     else if g = mx then 2 + (b - r) / (mx - mn)
                     else 4 + (r - g) / (mx - mn));
                h = h * 60;
                h = (if h < 0 then h + 360 else h)
            in (Some h, s, l))))"

text \<open>
  \<open>hexToHsl\<close> and \<open>hslToHex\<close> of the source. \<open>hexToHsl\<close> has no handler of its
  own: when the constructor throws, so does it (\<open>None\<close>). \<open>h || 0\<close> replaces an
  undefined hue by 0.
\<close>

definition hexToHsl :: "(string \<Rightarrow> rgb option) \<Rightarrow> string \<Rightarrow> HSL option" where
  "hexToHsl chroma hex =
     (case chroma hex of
        None \<Rightarrow> None
      | Some c \<Rightarrow>
          (case rgb2hsl c of (h, s, l) \<Rightarrow>
             Some (Math_round (case h of None \<Rightarrow> 0 | Some x \<Rightarrow> x),
                   Math_round (s * 100),
                   Math_round (l * 100))))"

definition hslToHex :: "HSL \<Rightarrow> string" where
  "hslToHex hsl = (case hsl of (h, s, l) \<Rightarrow>
     rgb2hex (clip_rgb (hsl2rgb (real_of_int h) (real_of_int s / 100) (real_of_int l / 100))))"

section \<open>Properties of entry parsing\<close>

lemma delims_takeWhile:
  assumes "d = CHR '','' \<or> d = CHR '' ''" "CHR '','' \<notin> set pre" "CHR '' '' \<notin> set pre"
  shows "takeWhile (\<lambda>x. x \<noteq> CHR '','' \<and> x \<noteq> CHR '' '') (pre @ d # post) = pre"
  using assms by (induction pre) auto

lemma colorEndIndex_takeWhile:
  "colorEndIndex s = (if CHR '','' \<in> set s \<or> CHR '' '' \<in> set s
      then int (length (takeWhile (\<lambda>x. x \<noteq> CHR '','' \<and> x \<noteq> CHR '' '') s)) else - 1)"
proof (induction s)
  case Nil
  then show ?case by (simp add: colorEndIndex_def indexOf_def)
next
  case (Cons a s)
  then show ?case
    by (auto simp: colorEndIndex_def indexOf_def Let_def split: if_splits)
qed

lemma colorEndIndex_delim:
  assumes "d = CHR '','' \<or> d = CHR '' ''" "CHR '','' \<notin> set pre" "CHR '' '' \<notin> set pre"
  shows "colorEndIndex (pre @ d # post) = int (length pre)"
proof -
  have "CHR '','' \<in> set (pre @ d # post) \<or> CHR '' '' \<in> set (pre @ d # post)"
    using assms(1) by auto
  then show ?thesis
    using delims_takeWhile [OF assms] by (simp add: colorEndIndex_takeWhile)
qed

lemma colorEndIndex_none:
  "CHR '','' \<notin> set s \<Longrightarrow> CHR '' '' \<notin> set s \<Longrightarrow> colorEndIndex s = - 1"
  by (simp add: colorEndIndex_takeWhile)

lemma colorEndIndex_range:
  "colorEndIndex s = - 1 \<or> (0 \<le> colorEndIndex s \<and> colorEndIndex s < int (length s))"
proof (cases "CHR '','' \<in> set s \<or> CHR '' '' \<in> set s")
  case True
  then have "takeWhile (\<lambda>x. x \<noteq> CHR '','' \<and> x \<noteq> CHR '' '') s \<noteq> s"
    by (auto simp: takeWhile_eq_all_conv)
  then have "length (takeWhile (\<lambda>x. x \<noteq> CHR '','' \<and> x \<noteq> CHR '' '') s) < length s"
    by (metis length_takeWhile_le le_neq_implies_less takeWhile_eq_take take_all order_refl)
  with True show ?thesis by (simp add: colorEndIndex_takeWhile)
next
  case False
  then show ?thesis by (simp add: colorEndIndex_takeWhile)
qed

lemma parse_exact_delim:
  assumes "d = CHR '','' \<or> d = CHR '' ''" "CHR '','' \<notin> set pre" "CHR '' '' \<notin> set pre"
  shows "parseColorInput_exact (pre @ d # post) =
           \<lparr>color = hashPrefix pre, label = Some (d # post)\<rparr>"
  using colorEndIndex_delim [OF assms]
  by (simp add: parseColorInput_exact_def substring_def substring_from_def Let_def hashPrefix_def)

lemma parse_exact_none:
  "CHR '','' \<notin> set s \<Longrightarrow> CHR '' '' \<notin> set s \<Longrightarrow>
     parseColorInput_exact s = \<lparr>color = s, label = None\<rparr>"
  by (simp add: parseColorInput_exact_def colorEndIndex_none)

lemma split_at_none: "c \<notin> set s \<Longrightarrow> split_at c s = [s]"
  by (induction s) (auto simp: Let_def)

lemma split_at_first: "c \<notin> set pre \<Longrightarrow> split_at c (pre @ c # post) = pre # split_at c post"
  by (induction pre) (auto simp: Let_def)

lemma split_at_nonempty: "split_at c s \<noteq> []"
  by (induction s) (auto simp: Let_def)

lemma join_split: "join_with c (split_at c s) = s"
proof (induction s)
  case Nil
  then show ?case by simp
next
  case (Cons a s)
  obtain p ps where ps: "split_at c s = p # ps"
    using split_at_nonempty [of c s] by (cases "split_at c s") auto
  show ?case
  proof (cases "a = c")
    case True
    with Cons ps show ?thesis by simp
  next
    case False
    with Cons ps show ?thesis by (cases ps) (auto simp: Let_def)
  qed
qed

lemma parse_comma:
  assumes "CHR '','' \<notin> set pre"
  shows "parseColorInput (pre @ CHR '','' # post) =
           \<lparr>color = hashPrefix (trim pre), label = Some (trim post)\<rparr>"
  using split_at_nonempty [of "CHR '',''" post]
  by (simp add: parseColorInput_def split_at_first [OF assms] join_split Let_def hashPrefix_def)

lemma parse_no_comma:
  assumes "CHR '','' \<notin> set s"
  shows "parseColorInput s = \<lparr>color = hashPrefix (trim s), label = None\<rparr>"
  by (simp add: parseColorInput_def split_at_none [OF assms] Let_def hashPrefix_def)

text \<open>
  C1. In the exact-preservation variant the line is cut at the first comma or space,
  whichever comes first: the text before it is the colour token (stored with a \<open>#\<close>
  when it is six hex digits) and the text from the delimiter on, the delimiter included,
  is the label, verbatim; a line with neither is the colour, with no label. In the
  variant of \<open>App.tsx\<close> only the first comma cuts the line: the trimmed text before it
  is the colour token and the trimmed text after it the label; a line without a comma is
  the colour, trimmed, with no label.
\<close>

theorem parseColorInput_split:
  "((d = CHR '','' \<or> d = CHR '' '') \<and> CHR '','' \<notin> set pre \<and> CHR '' '' \<notin> set pre \<longrightarrow>
      parseColorInput_exact (pre @ d # post) = \<lparr>color = hashPrefix pre, label = Some (d # post)\<rparr>)
   \<and> (CHR '','' \<notin> set line \<and> CHR '' '' \<notin> set line \<longrightarrow>
      parseColorInput_exact line = \<lparr>color = line, label = None\<rparr>)
   \<and> (CHR '','' \<notin> set pre' \<longrightarrow>
      parseColorInput (pre' @ CHR '','' # post') =
        \<lparr>color = hashPrefix (trim pre'), label = Some (trim post')\<rparr>)
   \<and> (CHR '','' \<notin> set line' \<longrightarrow>
      parseColorInput line' = \<lparr>color = hashPrefix (trim line'), label = None\<rparr>)"
  using parse_exact_delim [of d pre post] parse_exact_none [of line]
    parse_comma [of pre' post'] parse_no_comma [of line']
  by blast

theorem parseColorInput_split_witness:
  "parseColorInput_exact ''FF0000, Red Button'' = \<lparr>color = ''#FF0000'', label = Some '', Red Button''\<rparr>
   \<and> parseColorInput_exact ''red'' = \<lparr>color = ''red'', label = None\<rparr>
   \<and> parseColorInput '' FF0000 , Red,Button '' = \<lparr>color = ''#FF0000'', label = Some ''Red,Button''\<rparr>
   \<and> parseColorInput ''red blue'' = \<lparr>color = ''red blue'', label = None\<rparr>"
  using parseColorInput_split [where d = "CHR '',''" and pre = "''FF0000''"
      and post = "'' Red Button''" and line = "''red''" and pre' = "'' FF0000 ''"
      and post' = "'' Red,Button ''" and line' = "''red blue''"]
  by (simp add: hashPrefix_def isHex6_def isHexDigit_def trim_def isWhiteSpace_def)

text \<open>
  The parser of \<open>App.tsx\<close> does not cut \<open>red blue\<close> at its space: the whole line is the
  colour and no label is stored.
\<close>

theorem parseColorInput_space_counterexample:
  "parseColorInput ''red blue'' = \<lparr>color = ''red blue'', label = None\<rparr>
   \<and> parseColorInput ''red blue'' \<noteq> \<lparr>color = ''red'', label = Some '' blue''\<rparr>"
  by (simp add: parseColorInput_def Let_def trim_def isWhiteSpace_def isHex6_def)

lemma format_parse_exact:
  assumes "\<not> needsHashPrefix line"
  shows "formatColorValue_exact (parseColorInput_exact line) = line"
proof (cases "colorEndIndex line = - 1")
  case True
  then show ?thesis
    by (simp add: parseColorInput_exact_def formatColorValue_exact_def truthy_def)
next
  case False
  with colorEndIndex_range [of line]
  have r: "0 \<le> colorEndIndex line" "colorEndIndex line < int (length line)" by auto
  then have ne: "drop (nat (colorEndIndex line)) line \<noteq> []" by simp
  from False assms have nh: "\<not> isHex6 (substring line 0 (colorEndIndex line))"
    by (simp add: needsHashPrefix_def)
  show ?thesis
    using False ne nh
    by (simp add: parseColorInput_exact_def formatColorValue_exact_def truthy_def Let_def
        substring_def substring_from_def)
qed

lemma last_dropWhile': "dropWhile P xs \<noteq> [] \<Longrightarrow> last (dropWhile P xs) = last xs"
  by (induction xs) auto

lemma trim_ends:
  assumes "trim s \<noteq> []"
  shows "\<not> isWhiteSpace (hd (trim s)) \<and> \<not> isWhiteSpace (last (trim s))"
proof -
  let ?y = "dropWhile isWhiteSpace s"
  let ?z = "dropWhile isWhiteSpace (rev ?y)"
  have z: "?z \<noteq> []" using assms by (simp add: trim_def)
  have y: "?y \<noteq> []"
  proof
    assume e: "?y = []"
    have "?z = []" unfolding e by simp
    with z show False by simp
  qed
  have "\<not> isWhiteSpace (hd ?z)" using z by (rule hd_dropWhile)
  moreover have "last (trim s) = hd ?z" using z by (simp add: trim_def last_rev)
  moreover have "hd (trim s) = last ?z" using z by (simp add: trim_def hd_rev)
  moreover have "last ?z = last (rev ?y)" using z by (rule last_dropWhile')
  moreover have "last (rev ?y) = hd ?y" using y by (simp add: last_rev)
  moreover have "\<not> isWhiteSpace (hd ?y)" using y by (rule hd_dropWhile)
  ultimately show ?thesis by simp
qed

lemma trim_self:
  assumes "s = [] \<or> (\<not> isWhiteSpace (hd s) \<and> \<not> isWhiteSpace (last s))"
  shows "trim s = s"
proof (cases s)
  case Nil
  then show ?thesis by (simp add: trim_def)
next
  case (Cons a t)
  with assms have h: "\<not> isWhiteSpace a" and l: "\<not> isWhiteSpace (last s)" by auto
  have 1: "dropWhile isWhiteSpace s = s" using Cons h by simp
  have 2: "dropWhile isWhiteSpace (rev s) = rev s"
    using l by (simp add: dropWhile_eq_self_iff hd_rev)
  show ?thesis by (simp add: trim_def 1 2)
qed

lemma trim_idem: "trim (trim s) = trim s"
  using trim_ends [of s] by (intro trim_self) auto

lemma trim_ws_cons: "isWhiteSpace a \<Longrightarrow> trim (a # s) = trim s"
  by (simp add: trim_def)

lemma set_trim: "set (trim s) \<subseteq> set s"
proof -
  have "set (trim s) = set (dropWhile isWhiteSpace (rev (dropWhile isWhiteSpace s)))"
    by (simp add: trim_def)
  also have "\<dots> \<subseteq> set (rev (dropWhile isWhiteSpace s))"
    by (rule subsetI) (rule set_dropWhileD)
  also have "\<dots> \<subseteq> set s" by (auto dest: set_dropWhileD)
  finally show ?thesis .
qed

lemma hex_not_ws: "isHexDigit c \<Longrightarrow> \<not> isWhiteSpace c"
  by (auto simp: isHexDigit_def isWhiteSpace_def)

lemma isHex6_ends: "isHex6 h \<Longrightarrow> h \<noteq> [] \<and> \<not> isWhiteSpace (last h) \<and> \<not> isWhiteSpace (hd h)"
proof -
  assume h: "isHex6 h"
  then have ne: "h \<noteq> []" by (auto simp: isHex6_def)
  then have "hd h \<in> set h" "last h \<in> set h" by simp_all
  with h have "isHexDigit (hd h)" "isHexDigit (last h)"
    by (auto simp: isHex6_def list_all_iff)
  with ne show ?thesis by (simp add: hex_not_ws)
qed

lemma hashPrefix_trim:
  "trim (hashPrefix (trim s)) = hashPrefix (trim s)"
proof (cases "isHex6 (trim s)")
  case True
  then have "\<not> isWhiteSpace (last (trim s))" "trim s \<noteq> []" using isHex6_ends by auto
  moreover have "\<not> isWhiteSpace CHR ''#''" by (simp add: isWhiteSpace_def)
  ultimately show ?thesis using True by (intro trim_self) (simp add: hashPrefix_def)
next
  case False
  then show ?thesis by (simp add: hashPrefix_def trim_idem)
qed

lemma hashPrefix_not_hex: "\<not> isHex6 (hashPrefix t)"
  by (auto simp: hashPrefix_def isHex6_def isHexDigit_def)

lemma hashPrefix_fix: "hashPrefix (trim (hashPrefix (trim s))) = hashPrefix (trim s)"
  using hashPrefix_not_hex [of "trim s"] by (simp add: hashPrefix_trim) (simp add: hashPrefix_def)

lemma hashPrefix_no_comma: "CHR '','' \<notin> set t \<Longrightarrow> CHR '','' \<notin> set (hashPrefix (trim t))"
  using set_trim [of t] by (auto simp: hashPrefix_def)

lemma split_decompose:
  "c \<notin> set s \<or> (\<exists>pre post. s = pre @ c # post \<and> c \<notin> set pre)"
  by (meson split_list_first)

lemma format_parse_normal:
  "formatColorValue (parseColorInput (formatColorValue (parseColorInput line))) =
     formatColorValue (parseColorInput line)"
proof -
  have fix_plain: "\<And>t. CHR '','' \<notin> set t \<Longrightarrow>
      formatColorValue (parseColorInput (hashPrefix (trim t))) = hashPrefix (trim t)"
    using hashPrefix_no_comma
    by (simp add: parse_no_comma hashPrefix_fix formatColorValue_def truthy_def)
  consider (none) "CHR '','' \<notin> set line"
    | (some) pre post where "line = pre @ CHR '','' # post" "CHR '','' \<notin> set pre"
    using split_decompose [of "CHR '',''" line] by blast
  then show ?thesis
  proof cases
    case none
    then show ?thesis
      using fix_plain [OF none] by (simp add: parse_no_comma formatColorValue_def truthy_def)
  next
    case some
    show ?thesis
    proof (cases "trim post = []")
      case True
      then show ?thesis
        using fix_plain [OF some(2)] some
        by (simp add: parse_comma formatColorValue_def truthy_def)
    next
      case False
      let ?c = "hashPrefix (trim pre)"
      have nc: "CHR '','' \<notin> set ?c" using some(2) by (rule hashPrefix_no_comma)
      have l: "trim (CHR '' '' # trim post) = trim post"
        by (simp add: trim_ws_cons isWhiteSpace_def trim_idem)
      have "formatColorValue (parseColorInput line) = ?c @ CHR '','' # CHR '' '' # trim post"
        using some False by (simp add: parse_comma formatColorValue_def truthy_def)
      moreover have "parseColorInput (?c @ CHR '','' # CHR '' '' # trim post) =
          \<lparr>color = ?c, label = Some (trim post)\<rparr>"
        by (simp add: parse_comma [OF nc] hashPrefix_fix l)
      ultimately show ?thesis
        using False by (simp add: formatColorValue_def truthy_def)
    qed
  qed
qed

lemma format_parse_no_comma:
  "CHR '','' \<notin> set whole \<Longrightarrow>
     formatColorValue (parseColorInput whole) = hashPrefix (trim whole)"
  by (simp add: parse_no_comma formatColorValue_def truthy_def)

lemma format_parse_comma:
  "CHR '','' \<notin> set pre \<Longrightarrow>
     formatColorValue (parseColorInput (pre @ CHR '','' # post)) =
       (if trim post = [] then hashPrefix (trim pre)
        else hashPrefix (trim pre) @ '', '' @ trim post)"
  by (simp add: parse_comma formatColorValue_def truthy_def)

text \<open>
  C2. In the exact-preservation variant, formatting the parsed entry gives the line back
  whenever the parser did not add a \<open>#\<close> to the colour token. In the variant of
  \<open>App.tsx\<close> formatting the parsed entry gives a normal form of the line: for a line
  without a comma the trimmed line, with a \<open>#\<close> before six bare hex digits; for a
  line with a comma the same for the text before the first comma, followed by a comma, a
  space and the trimmed text after that comma unless that trimmed text is empty. The
  normal form is reproduced when it is parsed and formatted again.
\<close>

theorem format_parse_roundtrip:
  "(\<not> needsHashPrefix line \<longrightarrow> formatColorValue_exact (parseColorInput_exact line) = line)
   \<and> formatColorValue (parseColorInput (formatColorValue (parseColorInput line'))) =
       formatColorValue (parseColorInput line')
   \<and> (CHR '','' \<notin> set whole \<longrightarrow>
        formatColorValue (parseColorInput whole) = hashPrefix (trim whole))
   \<and> (CHR '','' \<notin> set pre \<longrightarrow>
        formatColorValue (parseColorInput (pre @ CHR '','' # post)) =
          (if trim post = [] then hashPrefix (trim pre)
           else hashPrefix (trim pre) @ '', '' @ trim post))"
  using format_parse_exact [of line] format_parse_normal [of line']
    format_parse_no_comma [of whole] format_parse_comma [of pre post]
  by blast

theorem format_parse_roundtrip_witness:
  "\<not> needsHashPrefix ''#FF0000, Red Button''
   \<and> formatColorValue_exact (parseColorInput_exact ''#FF0000, Red Button'') = ''#FF0000, Red Button''
   \<and> formatColorValue (parseColorInput '' ff0000 '') = ''#ff0000''
   \<and> formatColorValue (parseColorInput ''red , Red,Button '') = ''red, Red,Button''
   \<and> formatColorValue (parseColorInput ''red , '') = ''red''"
proof -
  have h: "\<not> needsHashPrefix ''#FF0000, Red Button''"
    by (simp add: needsHashPrefix_def colorEndIndex_def indexOf_def substring_def isHex6_def)
  have t: "trim '' ff0000 '' = ''ff0000''" "trim ''red '' = ''red''"
    "trim '' Red,Button '' = ''Red,Button''" "trim '' '' = []"
    by (simp_all add: trim_def isWhiteSpace_def)
  have x: "hashPrefix ''ff0000'' = ''#ff0000''" "hashPrefix ''red'' = ''red''"
    by (simp_all add: hashPrefix_def isHex6_def isHexDigit_def)
  from h format_parse_roundtrip [of "''#FF0000, Red Button''" _ "'' ff0000 ''" "''red ''"
      "'' Red,Button ''"]
    format_parse_roundtrip [of _ _ _ "''red ''" "'' ''"]
  show ?thesis by (simp add: t x)
qed

text \<open>
  The line \<open>#FF0000,Red\<close> needs no \<open>#\<close>, and the functions of \<open>App.tsx\<close> turn it
  into \<open>#FF0000, Red\<close>.
\<close>

theorem format_parse_comma_counterexample:
  "\<not> isHex6 (trim ''#FF0000'')
   \<and> formatColorValue (parseColorInput ''#FF0000,Red'') = ''#FF0000, Red''
   \<and> formatColorValue (parseColorInput ''#FF0000,Red'') \<noteq> ''#FF0000,Red''"
  by (simp add: parseColorInput_def formatColorValue_def truthy_def Let_def trim_def
      isWhiteSpace_def isHex6_def)

section \<open>Properties of the grid state\<close>

subsection \<open>Colour updates\<close>










subsection \<open>Reordering\<close>

lemma nth_append3:
  assumes "length A = a" "length B = b"
  shows "(A @ B @ x # C) ! k =
     (if k < a then A ! k else if k < a + b then B ! (k - a)
      else if k = a + b then x else C ! (k - Suc (a + b)))"
  using assms by (auto simp: nth_append nth_Cons')

lemma moveEntry_in:
  "from < length xs \<Longrightarrow>
     moveEntry from to xs =
       take to (take from xs @ drop (Suc from) xs) @
         xs ! from # drop to (take from xs @ drop (Suc from) xs)"
  by (simp add: moveEntry_def array_get_def splice_remove_def splice_insert_def Let_def)

lemma moveEntry_length: "from < length xs \<Longrightarrow> length (moveEntry from to xs) = length xs"
  by (auto simp: moveEntry_in)

lemma moveEntry_mset: "from < length xs \<Longrightarrow> mset (moveEntry from to xs) = mset xs"
proof -
  assume a: "from < length xs"
  let ?r = "take from xs @ drop (Suc from) xs"
  have "mset (moveEntry from to xs) = mset (take to ?r @ drop to ?r) + {#xs ! from#}"
    unfolding moveEntry_in [OF a] by simp
  also have "\<dots> = mset ?r + {#xs ! from#}" by (simp only: append_take_drop_id)
  also have "\<dots> = mset (take from xs @ xs ! from # drop (Suc from) xs)" by simp
  also have "\<dots> = mset xs" using a by (simp only: id_take_nth_drop [symmetric])
  finally show ?thesis .
qed

lemma moveEntry_forward:
  assumes "from < length xs" "from \<le> to"
  shows "moveEntry from to xs =
           take from xs @ take (to - from) (drop (Suc from) xs) @ xs ! from # drop (Suc to) xs"
  using assms unfolding moveEntry_in [OF assms(1)] by (simp add: min_def)

lemma moveEntry_backward:
  assumes "from < length xs" "to \<le> from"
  shows "moveEntry from to xs =
           (take to xs @ [] @ xs ! from # take (from - to) (drop to xs)) @ drop (Suc from) xs"
  using assms unfolding moveEntry_in [OF assms(1)] by (simp add: min_def drop_take)

lemma moveEntry_nth_forward:
  assumes "from < length xs" "to < length xs" "k < length xs" "from \<le> to"
  shows "moveEntry from to xs ! k =
     (if k = to then xs ! from
      else if from \<le> k \<and> k < to then xs ! Suc k
      else xs ! k)"
proof -
  have la: "length (take from xs) = from" using assms by simp
  have lb: "length (take (to - from) (drop (Suc from) xs)) = to - from" using assms by simp
  show ?thesis
    unfolding moveEntry_forward [OF assms(1,4)] nth_append3 [OF la lb]
    using assms by auto
qed

lemma moveEntry_nth_backward:
  assumes "from < length xs" "to < length xs" "k < length xs" "to \<le> from"
  shows "moveEntry from to xs ! k =
     (if k = to then xs ! from
      else if to < k \<and> k \<le> from then xs ! (k - 1)
      else xs ! k)"
proof -
  have la: "length (take to xs) = to" using assms by simp
  have lb: "length ([] :: 'a option list) = 0" by simp
  have lc: "length (take to xs @ [] @ xs ! from # take (from - to) (drop to xs)) = Suc from"
    using assms by simp
  define P where "P = take to xs @ [] @ xs ! from # take (from - to) (drop to xs)"
  have lp: "length P = Suc from" using lc by (simp only: P_def)
  have me: "moveEntry from to xs = P @ drop (Suc from) xs"
    unfolding moveEntry_backward [OF assms(1,4)] P_def ..
  show ?thesis
  proof (cases "k \<le> from")
    case True
    then have "moveEntry from to xs ! k = P ! k"
      unfolding me using lp by (simp add: nth_append)
    also have "\<dots> = (if k < to then xs ! k else if k = to then xs ! from else xs ! (k - 1))"
      unfolding P_def nth_append3 [OF la lb] using assms True by auto
    finally show ?thesis using True by auto
  next
    case False
    then have "moveEntry from to xs ! k = drop (Suc from) xs ! (k - Suc from)"
      unfolding me using lp by (simp add: nth_append)
    also have "\<dots> = xs ! k" using False assms by simp
    finally show ?thesis using False assms by auto
  qed
qed

lemma moveEntry_nth:
  assumes "from < length xs" "to < length xs" "k < length xs"
  shows "moveEntry from to xs ! k =
     (if k = to then xs ! from
      else if from \<le> k \<and> k < to then xs ! Suc k
      else if to < k \<and> k \<le> from then xs ! (k - 1)
      else xs ! k)"
proof (cases "from \<le> to")
  case True
  show ?thesis unfolding moveEntry_nth_forward [OF assms True] using True by auto
next
  case False
  then have le: "to \<le> from" by simp
  show ?thesis unfolding moveEntry_nth_backward [OF assms le] using False by auto
qed

lemma dragAxis_handleDragOver:
  "draggedOf type st = Some from \<Longrightarrow>
     dragAxis type (handleDragOver to type st) =
       (if from = to then dragAxis type st else moveEntry from to (dragAxis type st))"
  by (cases type) (simp_all add: handleDragOver_def dragAxis_def draggedOf_def)

lemma otherDragAxis_handleDragOver:
  "otherDragAxis type (handleDragOver to type st) = otherDragAxis type st"
  by (cases type) (simp_all add: handleDragOver_def otherDragAxis_def split: option.splits)

lemma handleDragOver_same:
  "draggedOf type st = Some to \<Longrightarrow> handleDragOver to type st = st"
  by (cases type) (simp_all add: handleDragOver_def draggedOf_def)

text \<open>
  C8. With entry \<open>from\<close> being dragged, a drag over index \<open>to\<close> (both within
  bounds) puts the dragged entry at \<open>to\<close>, moves every entry between the two positions
  one place towards \<open>from\<close>, leaves the entries outside that range where they were, and
  records \<open>to\<close> as the dragged index; with \<open>from = to\<close> the state is unchanged.
  Dragging index 0 of \<open>[A, B, C]\<close> over index 2 gives \<open>[B, C, A]\<close>.
\<close>

theorem handleDragOver_reorder:
  assumes "draggedOf type st = Some from"
    and "from < length (dragAxis type st)"
    and "to < length (dragAxis type st)"
  shows "(from = to \<longrightarrow> handleDragOver to type st = st)
    \<and> dragAxis type (handleDragOver to type st) ! to = dragAxis type st ! from
    \<and> (\<forall>k. from \<le> k \<and> k < to \<longrightarrow>
          dragAxis type (handleDragOver to type st) ! k = dragAxis type st ! Suc k)
    \<and> (\<forall>k. to < k \<and> k \<le> from \<longrightarrow>
          dragAxis type (handleDragOver to type st) ! k = dragAxis type st ! (k - 1))
    \<and> (\<forall>k < length (dragAxis type st). (k < from \<and> k < to) \<or> (from < k \<and> to < k) \<longrightarrow>
          dragAxis type (handleDragOver to type st) ! k = dragAxis type st ! k)
    \<and> (from \<noteq> to \<longrightarrow> draggedOf type (handleDragOver to type st) = Some to)
    \<and> (dragAxis type st = [A, B, C] \<and> from = 0 \<and> to = 2 \<longrightarrow>
          dragAxis type (handleDragOver to type st) = [B, C, A])"
proof -
  let ?xs = "dragAxis type st"
  let ?ys = "dragAxis type (handleDragOver to type st)"
  have ys: "?ys = moveEntry from to ?xs"
  proof (cases "from = to")
    case True
    have "moveEntry to to ?xs = ?xs"
      using assms(3) unfolding moveEntry_forward [OF assms(3) order_refl]
      by (simp add: id_take_nth_drop [symmetric])
    with True show ?thesis by (simp add: dragAxis_handleDragOver [OF assms(1)])
  next
    case False
    then show ?thesis by (simp add: dragAxis_handleDragOver [OF assms(1)])
  qed
  have nth: "\<And>k. k < length ?xs \<Longrightarrow> ?ys ! k =
     (if k = to then ?xs ! from
      else if from \<le> k \<and> k < to then ?xs ! Suc k
      else if to < k \<and> k \<le> from then ?xs ! (k - 1)
      else ?xs ! k)"
    unfolding ys by (rule moveEntry_nth [OF assms(2,3)])
  have c1: "from = to \<longrightarrow> handleDragOver to type st = st"
    using handleDragOver_same [of type st to] assms(1) by auto
  have c2: "?ys ! to = ?xs ! from" using nth [OF assms(3)] by simp
  have c3: "\<forall>k. from \<le> k \<and> k < to \<longrightarrow> ?ys ! k = ?xs ! Suc k"
  proof (intro allI impI)
    fix k assume k: "from \<le> k \<and> k < to"
    then have "k < length ?xs" using assms(3) by simp
    from nth [OF this] k show "?ys ! k = ?xs ! Suc k" by simp
  qed
  have c4: "\<forall>k. to < k \<and> k \<le> from \<longrightarrow> ?ys ! k = ?xs ! (k - 1)"
  proof (intro allI impI)
    fix k assume k: "to < k \<and> k \<le> from"
    then have "k < length ?xs" using assms(2) by simp
    from nth [OF this] k show "?ys ! k = ?xs ! (k - 1)" by simp
  qed
  have c5: "\<forall>k < length ?xs. (k < from \<and> k < to) \<or> (from < k \<and> to < k) \<longrightarrow> ?ys ! k = ?xs ! k"
  proof (intro allI impI)
    fix k assume "k < length ?xs" and k: "(k < from \<and> k < to) \<or> (from < k \<and> to < k)"
    from nth [OF this(1)] k show "?ys ! k = ?xs ! k" by auto
  qed
  have c6: "from \<noteq> to \<longrightarrow> draggedOf type (handleDragOver to type st) = Some to"
    using assms(1) by (cases type) (simp_all add: handleDragOver_def draggedOf_def)
  have c7: "?xs = [A, B, C] \<and> from = 0 \<and> to = 2 \<longrightarrow> ?ys = [B, C, A]"
    unfolding ys
    by (simp add: moveEntry_def array_get_def splice_remove_def splice_insert_def)
  from c1 c2 c3 c4 c5 c6 c7 show ?thesis by blast
qed

theorem handleDragOver_reorder_witness:
  "dragAxis column
     (handleDragOver 2 column
        \<lparr>foregroundColors = [Some \<lparr>color = ''#FFFFFF'', label = Some ''White''\<rparr>,
                             Some \<lparr>color = ''#000000'', label = Some ''Black''\<rparr>,
                             Some \<lparr>color = ''#FF0000'', label = Some ''Red''\<rparr>],
         backgroundColors = [],
         activeColorPicker = None,
         draggedIndex = Some 0, draggedRowIndex = None\<rparr>)
     = [Some \<lparr>color = ''#000000'', label = Some ''Black''\<rparr>,
        Some \<lparr>color = ''#FF0000'', label = Some ''Red''\<rparr>,
        Some \<lparr>color = ''#FFFFFF'', label = Some ''White''\<rparr>]"
  using handleDragOver_reorder [of column
        "\<lparr>foregroundColors = [Some \<lparr>color = ''#FFFFFF'', label = Some ''White''\<rparr>,
                             Some \<lparr>color = ''#000000'', label = Some ''Black''\<rparr>,
                             Some \<lparr>color = ''#FF0000'', label = Some ''Red''\<rparr>],
         backgroundColors = [],
         activeColorPicker = None,
         draggedIndex = Some 0, draggedRowIndex = None\<rparr>" 0 2
        "Some \<lparr>color = ''#FFFFFF'', label = Some ''White''\<rparr>"
        "Some \<lparr>color = ''#000000'', label = Some ''Black''\<rparr>"
        "Some \<lparr>color = ''#FF0000'', label = Some ''Red''\<rparr>"]
  by (simp add: draggedOf_def dragAxis_def)

text \<open>
  C10. With an entry within bounds being dragged, a drag over any other index keeps the
  length of the axis and the multiset of its entries, and leaves the other axis unchanged.
\<close>

theorem handleDragOver_permutation:
  assumes "draggedOf type st = Some from"
    and "from < length (dragAxis type st)"
    and "to < length (dragAxis type st)"
    and "from \<noteq> to"
  shows "length (dragAxis type (handleDragOver to type st)) = length (dragAxis type st)
    \<and> mset (dragAxis type (handleDragOver to type st)) = mset (dragAxis type st)
    \<and> otherDragAxis type (handleDragOver to type st) = otherDragAxis type st"
  using assms
  by (simp add: dragAxis_handleDragOver [OF assms(1)] otherDragAxis_handleDragOver
      moveEntry_length moveEntry_mset)

theorem handleDragOver_permutation_witness:
  "mset (dragAxis row
     (handleDragOver 0 row
        \<lparr>foregroundColors = [Some \<lparr>color = ''#FFFFFF'', label = Some ''White''\<rparr>],
         backgroundColors = [Some \<lparr>color = ''#000000'', label = Some ''Black''\<rparr>,
                             Some \<lparr>color = ''#0000FF'', label = Some ''Blue''\<rparr>],
         activeColorPicker = None,
         draggedIndex = None, draggedRowIndex = Some 1\<rparr>))
     = {#Some \<lparr>color = ''#000000'', label = Some ''Black''\<rparr>,
         Some \<lparr>color = ''#0000FF'', label = Some ''Blue''\<rparr>#}
   \<and> otherDragAxis row
     (handleDragOver 0 row
        \<lparr>foregroundColors = [Some \<lparr>color = ''#FFFFFF'', label = Some ''White''\<rparr>],
         backgroundColors = [Some \<lparr>color = ''#000000'', label = Some ''Black''\<rparr>,
                             Some \<lparr>color = ''#0000FF'', label = Some ''Blue''\<rparr>],
         activeColorPicker = None,
         draggedIndex = None, draggedRowIndex = Some 1\<rparr>)
     = [Some \<lparr>color = ''#FFFFFF'', label = Some ''White''\<rparr>]"
  using handleDragOver_permutation [of row
        "\<lparr>foregroundColors = [Some \<lparr>color = ''#FFFFFF'', label = Some ''White''\<rparr>],
         backgroundColors = [Some \<lparr>color = ''#000000'', label = Some ''Black''\<rparr>,
                             Some \<lparr>color = ''#0000FF'', label = Some ''Blue''\<rparr>],
         activeColorPicker = None,
         draggedIndex = None, draggedRowIndex = Some 1\<rparr>" 1 0]
  by (simp add: draggedOf_def dragAxis_def otherDragAxis_def)

subsection \<open>Initial state\<close>

text \<open>
  C9. When nothing is stored, or the stored text does not parse, the foreground
  initialiser returns white, black, red and the background initialiser black, white,
  blue. Each initialiser reads and parses for itself, so each falls back on its own.
  The two source variants differ only in the leading space of the labels.
\<close>

theorem initialColors_fallback:
  "(savedFg = None \<or> (\<exists>s. savedFg = Some s \<and> JSON_parse s = None) \<longrightarrow>
      initial_foregroundColors JSON_parse fgOf savedFg =
        Hardcoded [Some \<lparr>color = ''#FFFFFF'', label = Some ''White''\<rparr>,
                   Some \<lparr>color = ''#000000'', label = Some ''Black''\<rparr>,
                   Some \<lparr>color = ''#FF0000'', label = Some ''Red''\<rparr>]
      \<and> initial_foregroundColors_exact JSON_parse fgOf savedFg =
        Hardcoded [Some \<lparr>color = ''#FFFFFF'', label = Some '' White''\<rparr>,
                   Some \<lparr>color = ''#000000'', label = Some '' Black''\<rparr>,
                   Some \<lparr>color = ''#FF0000'', label = Some '' Red''\<rparr>])
   \<and> (savedBg = None \<or> (\<exists>s. savedBg = Some s \<and> JSON_parse s = None) \<longrightarrow>
      initial_backgroundColors JSON_parse bgOf savedBg =
        Hardcoded [Some \<lparr>color = ''#000000'', label = Some ''Black''\<rparr>,
                   Some \<lparr>color = ''#FFFFFF'', label = Some ''White''\<rparr>,
                   Some \<lparr>color = ''#0000FF'', label = Some ''Blue''\<rparr>]
      \<and> initial_backgroundColors_exact JSON_parse bgOf savedBg =
        Hardcoded [Some \<lparr>color = ''#000000'', label = Some '' Black''\<rparr>,
                   Some \<lparr>color = ''#FFFFFF'', label = Some '' White''\<rparr>,
                   Some \<lparr>color = ''#0000FF'', label = Some '' Blue''\<rparr>])"
  by (auto simp: initial_foregroundColors_def initial_backgroundColors_def
      initial_foregroundColors_exact_def initial_backgroundColors_exact_def
      initialColors_def default_foregroundColors_def default_backgroundColors_def
      default_foregroundColors_exact_def default_backgroundColors_exact_def)

theorem initialColors_fallback_witness:
  "initial_foregroundColors (\<lambda>s. if s = ''null'' then Some ''null'' else None) (\<lambda>v. None)
       (Some ''{fg:'') =
     Hardcoded [Some \<lparr>color = ''#FFFFFF'', label = Some ''White''\<rparr>,
                Some \<lparr>color = ''#000000'', label = Some ''Black''\<rparr>,
                Some \<lparr>color = ''#FF0000'', label = Some ''Red''\<rparr>]
   \<and> initial_backgroundColors (\<lambda>s. if s = ''null'' then Some ''null'' else None) (\<lambda>v. None)
       None =
     Hardcoded [Some \<lparr>color = ''#000000'', label = Some ''Black''\<rparr>,
                Some \<lparr>color = ''#FFFFFF'', label = Some ''White''\<rparr>,
                Some \<lparr>color = ''#0000FF'', label = Some ''Blue''\<rparr>]"
  using initialColors_fallback [of "Some ''{fg:''"
      "\<lambda>s. if s = ''null'' then Some ''null'' else None" "\<lambda>v. None" None "\<lambda>v. None"]
  by simp

section \<open>Properties of the contrast computation\<close>

text \<open>
  C7. A ratio of at least 7 is AAA, a ratio of at least 4.5 and below 7 is AA, and a
  ratio below 4.5 fails; each tier includes its lower bound.
\<close>

theorem getContrastLabel_tiers:
  "(getContrastLabel r = AAA \<longleftrightarrow> 7 \<le> r)
   \<and> (getContrastLabel r = AA \<longleftrightarrow> 45 / 10 \<le> r \<and> r < 7)
   \<and> (getContrastLabel r = Fail \<longleftrightarrow> r < 45 / 10)
   \<and> getContrastLabel 7 = AAA
   \<and> getContrastLabel (699 / 100) = AA
   \<and> getContrastLabel (45 / 10) = AA
   \<and> getContrastLabel (449 / 100) = Fail"
  by (auto simp: getContrastLabel_def)

text \<open>
  C6. When the library rejects the foreground or the background colour, the ratio of the
  cell is 0 and its label is the failing one; \<open>getRatio\<close> itself returns 0 on such a
  pair, since it catches the library's error.
\<close>

theorem cellRatio_invalid:
  assumes "\<not> isValidColor chroma (color fgColor) \<or> \<not> isValidColor chroma (color bgColor)"
  shows "cellRatio chroma fgColor bgColor = 0
    \<and> getContrastLabel (cellRatio chroma fgColor bgColor) = Fail
    \<and> getRatio chroma (color fgColor) (color bgColor) = 0"
  using assms
  by (auto simp: cellRatio_def getRatio_def isValidColor_def getContrastLabel_def
      split: option.splits)

theorem cellRatio_invalid_witness:
  "\<not> isValidColor (\<lambda>s. if s = ''#FFFFFF'' then Some (255, 255, 255) else None) ''not-a-color''
   \<and> cellRatio (\<lambda>s. if s = ''#FFFFFF'' then Some (255, 255, 255) else None)
       \<lparr>color = ''not-a-color'', label = None\<rparr> \<lparr>color = ''#FFFFFF'', label = Some ''White''\<rparr> = 0
   \<and> getContrastLabel
       (cellRatio (\<lambda>s. if s = ''#FFFFFF'' then Some (255, 255, 255) else None)
          \<lparr>color = ''not-a-color'', label = None\<rparr> \<lparr>color = ''#FFFFFF'', label = Some ''White''\<rparr>)
       = Fail"
proof -
  have h: "\<not> isValidColor (\<lambda>s. if s = ''#FFFFFF'' then Some (255, 255, 255) else None)
             ''not-a-color''"
    by (simp add: isValidColor_def)
  from h cellRatio_invalid [of "\<lambda>s. if s = ''#FFFFFF'' then Some (255, 255, 255) else None"
      "\<lparr>color = ''not-a-color'', label = None\<rparr>"
      "\<lparr>color = ''#FFFFFF'', label = Some ''White''\<rparr>"]
  show ?thesis by (simp add: getContrastLabel_def)
qed

lemma luminance_x_range:
  assumes "0 \<le> x" "x \<le> 255"
  shows "0 \<le> luminance_x x \<and> luminance_x x \<le> 1"
proof (cases "x / 255 \<le> 3928 / 100000")
  case True
  with assms show ?thesis by (simp add: luminance_x_def)
next
  case False
  have b0: "0 \<le> (x / 255 + 55 / 1000) / (1055 / 1000)" using assms by simp
  have b1: "(x / 255 + 55 / 1000) / (1055 / 1000) \<le> 1" using assms by simp
  have "((x / 255 + 55 / 1000) / (1055 / 1000)) powr (24 / 10) \<le> 1"
    using b0 b1 by (intro powr_le1) simp_all
  moreover have "0 \<le> ((x / 255 + 55 / 1000) / (1055 / 1000)) powr (24 / 10)"
    by (rule powr_ge_zero)
  ultimately show ?thesis using False by (simp add: luminance_x_def)
qed

lemma luminance_range:
  assumes "inGamut c"
  shows "0 \<le> luminance c \<and> luminance c \<le> 1"
proof -
  obtain r g b where c: "c = (r, g, b)" by (cases c)
  from assms c have r: "0 \<le> luminance_x r \<and> luminance_x r \<le> 1"
    and g: "0 \<le> luminance_x g \<and> luminance_x g \<le> 1"
    and b: "0 \<le> luminance_x b \<and> luminance_x b \<le> 1"
    by (simp_all add: inGamut_def luminance_x_range)
  then show ?thesis unfolding c luminance_def by simp
qed

lemma contrast_sym: "contrast a b = contrast b a"
  by (simp add: contrast_def Let_def)

lemma contrast_range:
  assumes "inGamut a" "inGamut b"
  shows "1 \<le> contrast a b \<and> contrast a b \<le> 21"
proof -
  have a: "0 \<le> luminance a" "luminance a \<le> 1" using luminance_range [OF assms(1)] by auto
  have b: "0 \<le> luminance b" "luminance b \<le> 1" using luminance_range [OF assms(2)] by auto
  have key: "\<And>hi lo :: real. 0 \<le> lo \<Longrightarrow> lo \<le> hi \<Longrightarrow> hi \<le> 1 \<Longrightarrow>
      1 \<le> (hi + 5 / 100) / (lo + 5 / 100) \<and> (hi + 5 / 100) / (lo + 5 / 100) \<le> 21"
  proof -
    fix hi lo :: real
    assume h: "0 \<le> lo" "lo \<le> hi" "hi \<le> 1"
    then have p: "0 < lo + 5 / 100" by simp
    have "1 \<le> (hi + 5 / 100) / (lo + 5 / 100)" using h p by (simp add: le_divide_eq)
    moreover have "(hi + 5 / 100) / (lo + 5 / 100) \<le> 21" using h p by (simp add: divide_le_eq)
    ultimately show "1 \<le> (hi + 5 / 100) / (lo + 5 / 100) \<and> (hi + 5 / 100) / (lo + 5 / 100) \<le> 21" ..
  qed
  show ?thesis
  proof (cases "luminance a > luminance b")
    case True
    with key [of "luminance b" "luminance a"] a b show ?thesis
      by (simp add: contrast_def Let_def)
  next
    case False
    with key [of "luminance a" "luminance b"] a b show ?thesis
      by (simp add: contrast_def Let_def)
  qed
qed

lemma luminance_white: "luminance (255, 255, 255) = 1"
  by (simp add: luminance_def luminance_x_def)

lemma luminance_black: "luminance (0, 0, 0) = 0"
  by (simp add: luminance_def luminance_x_def)

lemma contrast_white_black: "contrast (255, 255, 255) (0, 0, 0) = 21"
  by (simp add: contrast_def luminance_white luminance_black)

text \<open>
  C5. For two colours that the library accepts, with channels between 0 and 255, the
  ratio does not depend on the order of the two, lies between 1 and 21, and is 1 for a
  colour with itself; white on black gives 21.
\<close>

theorem getRatio_symmetric_bounded:
  assumes "\<forall>s c. chroma s = Some c \<longrightarrow> inGamut c"
    and "isValidColor chroma A"
    and "isValidColor chroma B"
  shows "getRatio chroma A B = getRatio chroma B A
    \<and> 1 \<le> getRatio chroma A B \<and> getRatio chroma A B \<le> 21
    \<and> getRatio chroma A A = 1
    \<and> (chroma ''#FFFFFF'' = Some (255, 255, 255) \<and> chroma ''#000000'' = Some (0, 0, 0) \<longrightarrow>
          getRatio chroma ''#FFFFFF'' ''#000000'' = 21)"
proof -
  from assms(2) obtain a where a: "chroma A = Some a"
    by (auto simp: isValidColor_def split: option.splits)
  from assms(3) obtain b where b: "chroma B = Some b"
    by (auto simp: isValidColor_def split: option.splits)
  from assms(1) a b have g: "inGamut a" "inGamut b" by blast+
  have r: "getRatio chroma A B = contrast a b" "getRatio chroma B A = contrast b a"
    "getRatio chroma A A = contrast a a"
    by (simp_all add: getRatio_def a b)
  have "0 \<le> luminance a" using luminance_range [OF g(1)] by simp
  then have self: "contrast a a = 1" by (simp add: contrast_def)
  have wb: "chroma ''#FFFFFF'' = Some (255, 255, 255) \<and> chroma ''#000000'' = Some (0, 0, 0) \<longrightarrow>
      getRatio chroma ''#FFFFFF'' ''#000000'' = 21"
    by (simp add: getRatio_def contrast_white_black)
  show ?thesis
    unfolding r using contrast_sym [of a b] contrast_range [OF g] self wb by simp
qed

theorem getRatio_symmetric_bounded_witness:
  "getRatio (\<lambda>s. if s = ''#FFFFFF'' then Some (255, 255, 255)
                  else if s = ''#000000'' then Some (0, 0, 0) else None) ''#FFFFFF'' ''#000000'' = 21
   \<and> getRatio (\<lambda>s. if s = ''#FFFFFF'' then Some (255, 255, 255)
                  else if s = ''#000000'' then Some (0, 0, 0) else None) ''#000000'' ''#FFFFFF'' = 21
   \<and> getRatio (\<lambda>s. if s = ''#FFFFFF'' then Some (255, 255, 255)
                  else if s = ''#000000'' then Some (0, 0, 0) else None) ''#FFFFFF'' ''#FFFFFF'' = 1"
proof -
  let ?ch = "\<lambda>s. if s = ''#FFFFFF'' then Some (255, 255, 255)
                  else if s = ''#000000'' then Some (0, 0, 0) else (None :: rgb option)"
  have g: "\<forall>s c. ?ch s = Some c \<longrightarrow> inGamut c" by (simp add: inGamut_def)
  have v: "isValidColor ?ch ''#FFFFFF''" "isValidColor ?ch ''#000000''"
    by (simp_all add: isValidColor_def)
  from getRatio_symmetric_bounded [OF g v] show ?thesis by simp
qed

section \<open>Properties of the colour conversion\<close>

lemma hexval_hexdigit: "d < 16 \<Longrightarrow> hexval (hexdigit d) = Some d"
proof -
  assume "d < 16"
  then have "d = 0 \<or> d = 1 \<or> d = 2 \<or> d = 3 \<or> d = 4 \<or> d = 5 \<or> d = 6 \<or> d = 7
      \<or> d = 8 \<or> d = 9 \<or> d = 10 \<or> d = 11 \<or> d = 12 \<or> d = 13 \<or> d = 14 \<or> d = 15"
    by presburger
  then show ?thesis by (elim disjE) (simp_all add: hexval_def hexdigit_def)
qed

lemma byteval_hex2: "n < 256 \<Longrightarrow> byteval (hexdigit (n div 16)) (hexdigit (n mod 16)) = Some n"
proof -
  assume n: "n < 256"
  then have "n div 16 < 16" "n mod 16 < 16" by simp_all
  then show ?thesis by (simp add: byteval_def hexval_hexdigit)
qed

lemma hex2rgb_rgb2hex:
  assumes "0 \<le> r" "r \<le> 255" "0 \<le> g" "g \<le> 255" "0 \<le> b" "b \<le> 255"
  shows "hex2rgb (rgb2hex (r, g, b)) =
           Some (real_of_int (Math_round r), real_of_int (Math_round g), real_of_int (Math_round b))"
proof -
  have rng: "\<And>x::real. 0 \<le> x \<Longrightarrow> x \<le> 255 \<Longrightarrow> 0 \<le> Math_round x \<and> nat (Math_round x) < 256"
  proof -
    fix x :: real
    assume x: "0 \<le> x" "x \<le> 255"
    have "0 \<le> \<lfloor>x + 1 / 2\<rfloor>" using x by (simp add: le_floor_iff)
    moreover have "\<lfloor>x + 1 / 2\<rfloor> < 256" using x by (simp add: floor_less_iff)
    ultimately show "0 \<le> Math_round x \<and> nat (Math_round x) < 256"
      unfolding Math_round_def by linarith
  qed
  show ?thesis
    using rng [OF assms(1,2)] rng [OF assms(3,4)] rng [OF assms(5,6)]
    by (simp add: rgb2hex_def hex2_def byteval_hex2)
qed

lemma round_percent:
  fixes l :: int
  assumes "0 \<le> l" "l \<le> 100"
  shows "Math_round (real_of_int (Math_round (real_of_int l / 100 * 255)) / 255 * 100) = l"
proof -
  define v where "v = Math_round (real_of_int l / 100 * 255)"
  have v1: "real_of_int v \<le> real_of_int l / 100 * 255 + 1 / 2"
    unfolding v_def Math_round_def by (rule of_int_floor_le)
  have v2: "real_of_int l / 100 * 255 + 1 / 2 < real_of_int v + 1"
    unfolding v_def Math_round_def by linarith
  have "\<lfloor>real_of_int v / 255 * 100 + 1 / 2\<rfloor> = l"
  proof (rule floor_unique)
    show "real_of_int l \<le> real_of_int v / 255 * 100 + 1 / 2" using v2 by simp
    show "real_of_int v / 255 * 100 + 1 / 2 < real_of_int l + 1" using v1 by simp
  qed
  then show ?thesis unfolding v_def Math_round_def .
qed


lemma grey_roundtrip:
  fixes h l :: int
  assumes "0 \<le> l" "l \<le> 100"
    and "chroma (hslToHex (h, 0, l)) = hex2rgb (hslToHex (h, 0, l))"
  shows "hexToHsl chroma (hslToHex (h, 0, l)) = Some (0, 0, l)"
proof -
  let ?c = "real_of_int l / 100 * 255"
  have c: "0 \<le> ?c" "?c \<le> 255" using assms by simp_all
  have hex: "hslToHex (h, 0, l) = rgb2hex (?c, ?c, ?c)"
    using c by (simp add: hslToHex_def hsl2rgb_def clip_rgb_def limit_def)
  have rd: "hex2rgb (rgb2hex (?c, ?c, ?c)) =
      Some (real_of_int (Math_round ?c), real_of_int (Math_round ?c), real_of_int (Math_round ?c))"
    by (intro hex2rgb_rgb2hex c)
  have ch: "chroma (hslToHex (h, 0, l)) =
      Some (real_of_int (Math_round ?c), real_of_int (Math_round ?c), real_of_int (Math_round ?c))"
    unfolding assms(3) unfolding hex by (rule rd)
  have "hexToHsl chroma (hslToHex (h, 0, l)) =
      Some (Math_round 0, Math_round 0, Math_round (real_of_int (Math_round ?c) / 255 * 100))"
    unfolding hexToHsl_def ch by (simp add: rgb2hsl_def)
  also have "Math_round (real_of_int (Math_round ?c) / 255 * 100) = l"
    using assms(1,2) by (rule round_percent)
  finally show ?thesis by (simp add: Math_round_def)
qed

lemma hexToHsl_total:
  assumes "chroma (hslToHex t) = hex2rgb (hslToHex t)"
  shows "\<exists>t'. hexToHsl chroma (hslToHex t) = Some t'"
proof -
  obtain h s l where t: "t = (h, s, l)" by (cases t)
  obtain r g b where c: "clip_rgb (hsl2rgb (real_of_int h) (real_of_int s / 100)
      (real_of_int l / 100)) = (r, g, b) \<and> 0 \<le> r \<and> r \<le> 255 \<and> 0 \<le> g \<and> g \<le> 255
        \<and> 0 \<le> b \<and> b \<le> 255"
    by (cases "hsl2rgb (real_of_int h) (real_of_int s / 100) (real_of_int l / 100)")
      (simp add: clip_rgb_def limit_def)
  then have "hex2rgb (hslToHex t) \<noteq> None"
    unfolding t hslToHex_def by (simp add: hex2rgb_rgb2hex)
  with assms show ?thesis
    by (auto simp: hexToHsl_def split: option.splits prod.splits)
qed

lemma hexToHsl_achromatic:
  assumes "chroma hex = Some (v, v, v)"
  shows "\<exists>l'. hexToHsl chroma hex = Some (0, 0, l')"
  using assms by (simp add: hexToHsl_def rgb2hsl_def Math_round_def)

text \<open>
  C4. For a six-digit hex text written by \<open>hslToHex\<close>, \<open>hexToHsl\<close> always returns a
  triple. A triple with saturation 0 comes back with hue 0, saturation 0 and its own
  lightness, whatever its hue was; and every colour with three equal channels is read
  with hue 0 and saturation 0.
\<close>

theorem hsl_roundtrip_grey:
  assumes "\<forall>c. chroma (rgb2hex c) = hex2rgb (rgb2hex c)"
  shows "(0 \<le> l \<and> l \<le> 100 \<longrightarrow> hexToHsl chroma (hslToHex (h, 0, l)) = Some (0, 0, l))
    \<and> (\<exists>t'. hexToHsl chroma (hslToHex t) = Some t')
    \<and> (chroma hex = Some (v, v, v) \<longrightarrow> (\<exists>l'. hexToHsl chroma hex = Some (0, 0, l')))"
proof -
  have rd: "chroma (hslToHex x) = hex2rgb (hslToHex x)" for x
    by (cases x) (simp add: hslToHex_def assms [rule_format])
  show ?thesis
    using grey_roundtrip [of l chroma h, OF _ _ rd [of "(h, 0, l)"]]
      hexToHsl_total [of chroma t, OF rd [of t]]
      hexToHsl_achromatic [of chroma hex v]
    by blast
qed

theorem hsl_roundtrip_grey_witness:
  "hexToHsl hex2rgb (hslToHex (123, 0, 50)) = Some (0, 0, 50)"
  using hsl_roundtrip_grey [of hex2rgb 50 123] by simp

text \<open>
  The triple with hue 0, saturation 50 and lightness 0 is written as black and read back
  with saturation 0.
\<close>

theorem hsl_roundtrip_counterexample:
  "hexToHsl hex2rgb (hslToHex (0, 50, 0)) = Some (0, 0, 0)
   \<and> hexToHsl hex2rgb (hslToHex (0, 50, 0)) \<noteq> Some (0, 50, 0)"
  by (simp add: hslToHex_def hsl2rgb_def hue_channel_def clip_rgb_def limit_def rgb2hex_def
      Math_round_def hex2_def hexdigit_def hexToHsl_def byteval_def hexval_def rgb2hsl_def)

end
